theory Spec2Isabelle
  imports Complex_Main
begin

section \<open>The implicit linear MPM solver: data model\<close>

text \<open>
  The development embeds \<^verbatim>\<open>include/solvers/mpm_implicit_linear.tcc\<close>: the method
  \<^verbatim>\<open>compute_stress_strain\<close> and the driver \<^verbatim>\<open>solve\<close>. Both are orchestration code:
  they read members of the solver object, decide what to call, and call the mesh, the
  scheme, the base solver and the output writers in a fixed order. The embedding keeps
  two things per call: the call itself with its arguments (an \<open>event\<close> appended to a
  trace) and its effect on the mesh, particle and scheme state (the \<open>world\<close>, changed
  by a function \<open>perform\<close> that stands for the bodies of the callees, which live in
  other files).

  Members are written without the trailing underscore of the C++ names (\<open>step\<close> for
  \<^verbatim>\<open>step_\<close>), which is not a legal name here. Logging through \<^verbatim>\<open>console_\<close>, the MPI rank
  and size (only read by the logging) and the wall-clock measurements are left out.
\<close>

subsection \<open>The analysis configuration (a JSON document)\<close>

text \<open>
  The member \<^verbatim>\<open>analysis_\<close> is a JSON value. Only its shape matters to \<^verbatim>\<open>solve\<close>;
  numbers are kept as integers, no number is read in this file.
\<close>

datatype json =
    JNull
  | JBool bool
  | JNumber int
  | JString string
  | JArray "json list"
  | JObject "(string \<times> json) list"

text \<open>
  What ends \<^verbatim>\<open>solve\<close> abnormally: a JSON access of the wrong type throws and nothing
  catches it; an unsigned remainder by zero is undefined behaviour and is made a fault.
\<close>

datatype fault = Json_type_error | Division_by_zero

text \<open>\<^verbatim>\<open>j.find(k) != j.end()\<close>: a key is only ever found in an object.\<close>

fun json_find :: "json \<Rightarrow> string \<Rightarrow> json option" where
  "json_find (JObject kvs) k = map_of kvs k"
| "json_find JNull k = None"
| "json_find (JBool b) k = None"
| "json_find (JNumber n) k = None"
| "json_find (JString t) k = None"
| "json_find (JArray js) k = None"

text \<open>
  \<^verbatim>\<open>j[k]\<close> on a mutable document: an object yields the member, or null when the key is
  absent; null behaves as the empty object; every other kind of value throws.
\<close>

fun json_at :: "json \<Rightarrow> string \<Rightarrow> fault + json" where
  "json_at (JObject kvs) k = Inr (case map_of kvs k of None \<Rightarrow> JNull | Some v \<Rightarrow> v)"
| "json_at JNull k = Inr JNull"
| "json_at (JBool b) k = Inl Json_type_error"
| "json_at (JNumber n) k = Inl Json_type_error"
| "json_at (JString t) k = Inl Json_type_error"
| "json_at (JArray js) k = Inl Json_type_error"

text \<open>\<^verbatim>\<open>j.get<bool>()\<close>: only a boolean converts.\<close>

fun json_get_bool :: "json \<Rightarrow> fault + bool" where
  "json_get_bool (JBool b) = Inr b"
| "json_get_bool JNull = Inl Json_type_error"
| "json_get_bool (JNumber n) = Inl Json_type_error"
| "json_get_bool (JString t) = Inl Json_type_error"
| "json_get_bool (JArray js) = Inl Json_type_error"
| "json_get_bool (JObject kvs) = Inl Json_type_error"

subsection \<open>Build options, calls and the solver object\<close>

text \<open>The four preprocessor switches that guard parts of \<^verbatim>\<open>solve\<close>.\<close>

record build =
  use_mpi :: bool
  use_graph_partitioning :: bool
  use_vtk :: bool
  use_partio :: bool

text \<open>The particle member functions handed to \<^verbatim>\<open>iterate_over_particles\<close>.\<close>

datatype particle_op =
    Compute_strain real
  | Update_volume
  | Compute_stress
  | Compute_mass

text \<open>
  One constructor per callee of the file, with the arguments of the call. \<open>'v\<close> is the
  type of the member \<^verbatim>\<open>velocity_update_\<close>, declared in a header outside this file.
\<close>

datatype 'v event =
    Initialise_materials
  | Initialise_mesh
  | Initialise_particle_types
  | Checkpoint_resume
  | Resume_domain_cell_ranks
  | Mpi_barrier
  | Particle_entity_sets bool
  | Particle_velocity_constraints
  | Initialise_particles
  | Iterate_over_particles particle_op
  | Mpi_domain_decompose bool
  | Initialise_loads
  | Inject_particles real
  | Scheme_initialise
  | Compute_nodal_kinematics nat
  | Update_nodal_kinematics_newmark nat real real
  | Compute_forces "real list" nat nat bool
  | Compute_particle_kinematics 'v nat string real
  | Postcompute_stress_strain nat bool
  | Locate_particles bool
  | Transfer_halo_particles
  | Pressure_smoothing nat
  | Write_hdf5 nat nat
  | Write_vtk nat nat
  | Write_partio nat nat

text \<open>
  The members \<^verbatim>\<open>solve\<close> reads and writes. Their declarations are in the base solver's
  header, which is not part of this file: counters are unsigned integers (taken as
  naturals; the only arithmetic on them is the increment of \<open>step\<close> below \<open>nsteps\<close>,
  which cannot wrap), \<^verbatim>\<open>double\<close>s are taken as reals, flags as booleans.

  \<open>io_analysis_bool\<close> is the answer of \<^verbatim>\<open>io_->analysis_bool(key)\<close>.
\<close>

text \<open>
  Modelled from the spec: two fields that \<^verbatim>\<open>solve\<close> itself never reads.
  \<open>persisted_step\<close> is the step index of the checkpoint record that
  \<^verbatim>\<open>checkpoint_resume\<close> tries to load, \<open>None\<close> when the record is missing or corrupt.
  \<open>damping_type\<close> is the damping type of the run configuration and of the scheme state.
\<close>

record ('w, 'v) solver =
  analysis :: json
  io_analysis_bool :: "string \<Rightarrow> bool"
  persisted_step :: "nat option"
  step :: nat
  nsteps :: nat
  output_steps :: nat
  nload_balance_steps :: nat
  dt :: real
  newmark_beta :: real
  newmark_gamma :: real
  gravity :: "real list"
  set_node_concentrated_force :: bool
  velocity_update :: 'v
  damping_type :: string
  damping_factor :: real
  locate_particles :: bool
  pressure_smoothing :: bool
  interface :: bool
  world :: 'w
  trace :: "'v event list"

text \<open>A call of a collaborator: its effect on the world, and its record in the trace.\<close>

definition call :: "('v event \<Rightarrow> 'w \<Rightarrow> 'w) \<Rightarrow> 'v event \<Rightarrow> ('w, 'v) solver \<Rightarrow> ('w, 'v) solver" where
  "call perform e s = s\<lparr>world := perform e (world s), trace := trace s @ [e]\<rparr>"

text \<open>
  Modelled from the spec: the output writers \<^verbatim>\<open>write_hdf5\<close>, \<^verbatim>\<open>write_vtk\<close> and
  \<^verbatim>\<open>write_partio\<close> (members of the base solver, not in this file) consume the current
  particle and mesh state read-only: a write is recorded and changes nothing else.
\<close>

definition write_out :: "'v event \<Rightarrow> ('w, 'v) solver \<Rightarrow> ('w, 'v) solver" where
  "write_out e s = s\<lparr>trace := trace s @ [e]\<rparr>"

text \<open>
  Modelled from the spec: \<^verbatim>\<open>checkpoint_resume\<close> (a member of the base solver, not in
  this file) attempts to load a persisted step index and particle and domain state and
  returns a success flag. On success the step counter is the persisted step index and
  the world is the restored one; on failure nothing of the record is applied.
\<close>

definition checkpoint_resume ::
    "('v event \<Rightarrow> 'w \<Rightarrow> 'w) \<Rightarrow> ('w, 'v) solver \<Rightarrow> bool \<times> ('w, 'v) solver" where
  "checkpoint_resume perform s =
     (case persisted_step s of
        None \<Rightarrow> (False, write_out Checkpoint_resume s)
      | Some k \<Rightarrow> (True, (call perform Checkpoint_resume s)\<lparr>step := k\<rparr>))"

section \<open>The code\<close>

subsection \<open>\<^verbatim>\<open>compute_stress_strain\<close>\<close>

text \<open>
  Three passes of \<^verbatim>\<open>iterate_over_particles\<close> over the mesh, each one call with the
  particle function it applies, and between the second and the third the solver's own
  \<^verbatim>\<open>pressure_smoothing(phase)\<close> under the flag.
\<close>

definition compute_stress_strain ::
    "('v event \<Rightarrow> 'w \<Rightarrow> 'w) \<Rightarrow> nat \<Rightarrow> ('w, 'v) solver \<Rightarrow> ('w, 'v) solver" where
  "compute_stress_strain perform phase s =
     (let s1 = call perform (Iterate_over_particles (Compute_strain (dt s))) s;
          s2 = call perform (Iterate_over_particles Update_volume) s1;
          s3 = (if pressure_smoothing s2 then call perform (Pressure_smoothing phase) s2 else s2)
      in call perform (Iterate_over_particles Compute_stress) s3)"

subsection \<open>\<^verbatim>\<open>solve\<close>: before the main loop\<close>

text \<open>
  The test for a resume request:
  \<^verbatim>\<open>if (analysis_.find("resume") != analysis_.end())
    resume = analysis_["resume"]["resume"].template get<bool>();\<close>
\<close>

definition read_resume :: "json \<Rightarrow> fault + bool" where
  "read_resume a =
     (case json_find a ''resume'' of
        None \<Rightarrow> Inr False
      | Some found \<Rightarrow>
          (case json_at a ''resume'' of
             Inl f \<Rightarrow> Inl f
           | Inr r \<Rightarrow>
               (case json_at r ''resume'' of
                  Inl f \<Rightarrow> Inl f
                | Inr v \<Rightarrow> json_get_bool v)))"

text \<open>
  The block \<^verbatim>\<open>if (resume) { initialise_particle_types(); ... }\<close>: the flag after the
  attempt, and the state.
\<close>

definition check_point_resume ::
    "('v event \<Rightarrow> 'w \<Rightarrow> 'w) \<Rightarrow> bool \<Rightarrow> ('w, 'v) solver \<Rightarrow> bool \<times> ('w, 'v) solver" where
  "check_point_resume perform resume s =
     (if resume then
        (let s1 = call perform Initialise_particle_types s;
             (check_resume, s2) = checkpoint_resume perform s1
         in (if \<not> check_resume then False else resume, s2))
      else (resume, s))"

text \<open>The block \<^verbatim>\<open>if (resume) { ... } else { ... }\<close> that follows it.\<close>

definition resume_or_initialise ::
    "build \<Rightarrow> ('v event \<Rightarrow> 'w \<Rightarrow> 'w) \<Rightarrow> bool \<Rightarrow> ('w, 'v) solver \<Rightarrow> ('w, 'v) solver" where
  "resume_or_initialise b perform resume s =
     (if resume then
        (let s1 = call perform Resume_domain_cell_ranks s;
             s2 = (if use_mpi b \<and> use_graph_partitioning b then call perform Mpi_barrier s1 else s1);
             s3 = call perform (Particle_entity_sets False) s2
         in call perform Particle_velocity_constraints s3)
      else
        (let s1 = call perform Initialise_particles s;
             s2 = call perform (Iterate_over_particles Compute_mass) s1;
             initial_step = (if resume = True then False else True)
         in call perform (Mpi_domain_decompose initial_step) s2))"

text \<open>Everything from the declaration of \<^verbatim>\<open>resume\<close> to \<^verbatim>\<open>initialise_loads()\<close>.\<close>

definition solve_setup ::
    "build \<Rightarrow> ('v event \<Rightarrow> 'w \<Rightarrow> 'w) \<Rightarrow> ('w, 'v) solver \<Rightarrow> fault + ('w, 'v) solver" where
  "solve_setup b perform s =
     (case read_resume (analysis s) of
        Inl f \<Rightarrow> Inl f
      | Inr resume \<Rightarrow>
          (let s1 = s\<lparr>pressure_smoothing := io_analysis_bool s ''pressure_smoothing''\<rparr>;
               s2 = s1\<lparr>interface := io_analysis_bool s1 ''interface''\<rparr>;
               s3 = call perform Initialise_materials s2;
               s4 = call perform Initialise_mesh s3;
               (resume', s5) = check_point_resume perform resume s4;
               s6 = resume_or_initialise b perform resume' s5
           in Inr (call perform Initialise_loads s6)))"

subsection \<open>\<^verbatim>\<open>solve\<close>: one iteration of the main loop\<close>

text \<open>The load balancer, compiled in with MPI and graph partitioning only.\<close>

definition load_balance ::
    "build \<Rightarrow> ('v event \<Rightarrow> 'w \<Rightarrow> 'w) \<Rightarrow> ('w, 'v) solver \<Rightarrow> fault + ('w, 'v) solver" where
  "load_balance b perform s =
     (if use_mpi b \<and> use_graph_partitioning b then
        (if nload_balance_steps s = 0 then Inl Division_by_zero
         else if step s mod nload_balance_steps s = 0 \<and> step s \<noteq> 0
           then Inr (call perform (Mpi_domain_decompose False) s)
           else Inr s)
      else Inr s)"

text \<open>From \<^verbatim>\<open>inject_particles\<close> to \<^verbatim>\<open>locate_particles\<close>.\<close>

definition scheme_step ::
    "('v event \<Rightarrow> 'w \<Rightarrow> 'w) \<Rightarrow> nat \<Rightarrow> ('w, 'v) solver \<Rightarrow> ('w, 'v) solver" where
  "scheme_step perform phase s =
     (let s1 = call perform (Inject_particles (real (step s) * dt s)) s;
          s2 = call perform Scheme_initialise s1;
          s3 = call perform (Compute_nodal_kinematics phase) s2;
          s4 = call perform
                 (Update_nodal_kinematics_newmark phase (newmark_beta s3) (newmark_gamma s3)) s3;
          s5 = call perform
                 (Compute_forces (gravity s4) phase (step s4) (set_node_concentrated_force s4)) s4;
          s6 = call perform
                 (Update_nodal_kinematics_newmark phase (newmark_beta s5) (newmark_gamma s5)) s5;
          s7 = call perform
                 (Compute_particle_kinematics (velocity_update s6) phase ''Cundall''
                    (damping_factor s6)) s6;
          s8 = call perform (Postcompute_stress_strain phase (pressure_smoothing s7)) s7
      in call perform (Locate_particles (locate_particles s8)) s8)"

text \<open>The halo transfer and its barrier, compiled in with MPI and graph partitioning only.\<close>

definition halo_transfer ::
    "build \<Rightarrow> ('v event \<Rightarrow> 'w \<Rightarrow> 'w) \<Rightarrow> ('w, 'v) solver \<Rightarrow> ('w, 'v) solver" where
  "halo_transfer b perform s =
     (if use_mpi b \<and> use_graph_partitioning b
      then call perform Mpi_barrier (call perform Transfer_halo_particles s)
      else s)"

text \<open>The block \<^verbatim>\<open>if (step_ % output_steps_ == 0) { ... }\<close>.\<close>

definition write_outputs :: "build \<Rightarrow> ('w, 'v) solver \<Rightarrow> fault + ('w, 'v) solver" where
  "write_outputs b s =
     (if output_steps s = 0 then Inl Division_by_zero
      else if step s mod output_steps s = 0 then
        (let s1 = write_out (Write_hdf5 (step s) (nsteps s)) s;
             s2 = (if use_vtk b then write_out (Write_vtk (step s1) (nsteps s1)) s1 else s1);
             s3 = (if use_partio b then write_out (Write_partio (step s2) (nsteps s2)) s2 else s2)
         in Inr s3)
      else Inr s)"

text \<open>The body of the \<^verbatim>\<open>for\<close> loop.\<close>

definition solve_step ::
    "build \<Rightarrow> ('v event \<Rightarrow> 'w \<Rightarrow> 'w) \<Rightarrow> nat \<Rightarrow> ('w, 'v) solver \<Rightarrow> fault + ('w, 'v) solver" where
  "solve_step b perform phase s =
     (case load_balance b perform s of
        Inl f \<Rightarrow> Inl f
      | Inr s1 \<Rightarrow> write_outputs b (halo_transfer b perform (scheme_step perform phase s1)))"

subsection \<open>\<^verbatim>\<open>solve\<close>: the main loop and the whole method\<close>

text \<open>\<^verbatim>\<open>for (; step_ < nsteps_; ++step_) { ... }\<close>\<close>

function main_loop ::
    "build \<Rightarrow> ('v event \<Rightarrow> 'w \<Rightarrow> 'w) \<Rightarrow> nat \<Rightarrow> ('w, 'v) solver \<Rightarrow> fault + ('w, 'v) solver" where
  "main_loop b perform phase s =
     (if step s < nsteps s then
        (case solve_step b perform phase s of
           Inl f \<Rightarrow> Inl f
         | Inr s' \<Rightarrow> main_loop b perform phase (s'\<lparr>step := step s' + 1\<rparr>))
      else Inr s)"
  by pat_completeness auto
termination
  by (relation "measure (\<lambda>(b, perform, phase, s). nsteps s - step s)")
     (auto simp: solve_step_def load_balance_def write_outputs_def halo_transfer_def
        scheme_step_def call_def write_out_def Let_def split: sum.splits if_splits)

declare main_loop.simps [simp del]

definition solve ::
    "build \<Rightarrow> ('v event \<Rightarrow> 'w \<Rightarrow> 'w) \<Rightarrow> ('w, 'v) solver \<Rightarrow> fault + (bool \<times> ('w, 'v) solver)" where
  "solve b perform s =
     (let status = True;
          phase = 0
      in (case solve_setup b perform s of
            Inl f \<Rightarrow> Inl f
          | Inr s1 \<Rightarrow>
              (case main_loop b perform phase s1 of
                 Inl f \<Rightarrow> Inl f
               | Inr s2 \<Rightarrow> Inr (status, s2))))"

section \<open>What a run calls, in closed form\<close>

text \<open>
  The definitions of this section describe the behaviour of the code above; the lemmas
  of the next section prove that they do. \<open>effects\<close> is the world after a list of
  calls.
\<close>

definition effects :: "('v event \<Rightarrow> 'w \<Rightarrow> 'w) \<Rightarrow> 'v event list \<Rightarrow> 'w \<Rightarrow> 'w" where
  "effects perform es w = foldl (\<lambda>w' e. perform e w') w es"

text \<open>The calls of iteration \<open>k\<close>, block by block, in the order of the loop body.\<close>

definition balance_events :: "build \<Rightarrow> ('w, 'v) solver \<Rightarrow> nat \<Rightarrow> 'v event list" where
  "balance_events b s k =
     (if use_mpi b \<and> use_graph_partitioning b \<and> k mod nload_balance_steps s = 0 \<and> k \<noteq> 0
      then [Mpi_domain_decompose False] else [])"

definition scheme_events :: "nat \<Rightarrow> ('w, 'v) solver \<Rightarrow> nat \<Rightarrow> 'v event list" where
  "scheme_events phase s k =
     [Inject_particles (real k * dt s),
      Scheme_initialise,
      Compute_nodal_kinematics phase,
      Update_nodal_kinematics_newmark phase (newmark_beta s) (newmark_gamma s),
      Compute_forces (gravity s) phase k (set_node_concentrated_force s),
      Update_nodal_kinematics_newmark phase (newmark_beta s) (newmark_gamma s),
      Compute_particle_kinematics (velocity_update s) phase ''Cundall'' (damping_factor s),
      Postcompute_stress_strain phase (pressure_smoothing s),
      Locate_particles (locate_particles s)]"

definition halo_events :: "build \<Rightarrow> 'v event list" where
  "halo_events b =
     (if use_mpi b \<and> use_graph_partitioning b then [Transfer_halo_particles, Mpi_barrier] else [])"

definition writer_events :: "build \<Rightarrow> ('w, 'v) solver \<Rightarrow> nat \<Rightarrow> 'v event list" where
  "writer_events b s k =
     (if k mod output_steps s = 0
      then [Write_hdf5 k (nsteps s)]
           @ (if use_vtk b then [Write_vtk k (nsteps s)] else [])
           @ (if use_partio b then [Write_partio k (nsteps s)] else [])
      else [])"

text \<open>The calls of an iteration that act on the world, and all its calls.\<close>

definition simulation_events :: "build \<Rightarrow> nat \<Rightarrow> ('w, 'v) solver \<Rightarrow> nat \<Rightarrow> 'v event list" where
  "simulation_events b phase s k = balance_events b s k @ scheme_events phase s k @ halo_events b"

definition step_events :: "build \<Rightarrow> nat \<Rightarrow> ('w, 'v) solver \<Rightarrow> nat \<Rightarrow> 'v event list" where
  "step_events b phase s k = simulation_events b phase s k @ writer_events b s k"

text \<open>
  An iteration completes exactly when neither of its two remainders divides by zero
  (lemma \<open>solve_step_eq\<close>).
\<close>

definition steps_can_run :: "build \<Rightarrow> ('w, 'v) solver \<Rightarrow> bool" where
  "steps_can_run b s \<longleftrightarrow>
     output_steps s \<noteq> 0 \<and> (\<not> (use_mpi b \<and> use_graph_partitioning b) \<or> nload_balance_steps s \<noteq> 0)"

text \<open>The two flags \<^verbatim>\<open>solve\<close> reads from the configuration before anything else.\<close>

definition configured :: "('w, 'v) solver \<Rightarrow> ('w, 'v) solver" where
  "configured s =
     s\<lparr>pressure_smoothing := io_analysis_bool s ''pressure_smoothing'',
       interface := io_analysis_bool s ''interface''\<rparr>"

text \<open>The calls of the two branches of \<^verbatim>\<open>if (resume) { ... } else { ... }\<close>.\<close>

definition fresh_start_events :: "'v event list" where
  "fresh_start_events =
     [Initialise_particles, Iterate_over_particles Compute_mass, Mpi_domain_decompose True]"

definition resume_events :: "build \<Rightarrow> 'v event list" where
  "resume_events b =
     [Resume_domain_cell_ranks]
     @ (if use_mpi b \<and> use_graph_partitioning b then [Mpi_barrier] else [])
     @ [Particle_entity_sets False, Particle_velocity_constraints]"

text \<open>
  The calls one iteration, and the part of \<^verbatim>\<open>solve\<close> before the loop, add to the trace;
  \<open>None\<close> when they end in a fault.
\<close>

definition step_calls ::
    "build \<Rightarrow> ('v event \<Rightarrow> 'w \<Rightarrow> 'w) \<Rightarrow> nat \<Rightarrow> ('w, 'v) solver \<Rightarrow> 'v event list option" where
  "step_calls b perform phase s =
     (case solve_step b perform phase s of
        Inl f \<Rightarrow> None
      | Inr s' \<Rightarrow> Some (drop (length (trace s)) (trace s')))"

definition setup_calls ::
    "build \<Rightarrow> ('v event \<Rightarrow> 'w \<Rightarrow> 'w) \<Rightarrow> ('w, 'v) solver \<Rightarrow> 'v event list option" where
  "setup_calls b perform s =
     (case solve_setup b perform s of
        Inl f \<Rightarrow> None
      | Inr s' \<Rightarrow> Some (drop (length (trace s)) (trace s')))"

text \<open>
  The calls a whole run of \<^verbatim>\<open>solve\<close> adds to the trace, \<open>None\<close> when it ends in a fault;
  and the step indices of a list of calls, read off the calls of \<^verbatim>\<open>compute_forces\<close>,
  which every iteration makes once with the step counter as an argument.
\<close>

definition solve_calls ::
    "build \<Rightarrow> ('v event \<Rightarrow> 'w \<Rightarrow> 'w) \<Rightarrow> ('w, 'v) solver \<Rightarrow> 'v event list option" where
  "solve_calls b perform s =
     (case solve b perform s of
        Inl f \<Rightarrow> None
      | Inr (status, s') \<Rightarrow> Some (drop (length (trace s)) (trace s')))"

fun steps_run :: "'v event list \<Rightarrow> nat list" where
  "steps_run [] = []"
| "steps_run (Compute_forces g phase k f # es) = k # steps_run es"
| "steps_run (e # es) = steps_run es"

text \<open>Counting and selecting calls in a list of calls.\<close>

definition rebalances :: "'v event list \<Rightarrow> nat" where
  "rebalances calls = count_list calls (Mpi_domain_decompose False)"

definition initial_partitions :: "'v event list \<Rightarrow> nat" where
  "initial_partitions calls = count_list calls (Mpi_domain_decompose True)"

fun is_particle_kinematics :: "'v event \<Rightarrow> bool" where
  "is_particle_kinematics (Compute_particle_kinematics v phase name factor) = True"
| "is_particle_kinematics e = False"

definition particle_kinematics_calls :: "'v event list \<Rightarrow> 'v event list" where
  "particle_kinematics_calls calls = filter is_particle_kinematics calls"

fun is_writer :: "'v event \<Rightarrow> bool" where
  "is_writer (Write_hdf5 k n) = True"
| "is_writer (Write_vtk k n) = True"
| "is_writer (Write_partio k n) = True"
| "is_writer e = False"

definition writer_calls :: "'v event list \<Rightarrow> 'v event list" where
  "writer_calls calls = filter is_writer calls"

section \<open>The specification's side\<close>

text \<open>
  The order of one step as the specification's control flow gives it: the nine scheme
  operations from particle injection to \<^verbatim>\<open>locate_particles\<close> (the same nine, in the same
  order, as in the code), then the load balancer when it is due, then the writers when
  they are due. A list of calls follows an order when the calls that the order mentions
  occur in it exactly as the order lists them.
\<close>

definition spec_step_order :: "build \<Rightarrow> nat \<Rightarrow> ('w, 'v) solver \<Rightarrow> nat \<Rightarrow> 'v event list" where
  "spec_step_order b phase s k =
     scheme_events phase s k @ balance_events b s k @ writer_events b s k"

definition follows_order :: "'a list \<Rightarrow> 'a list \<Rightarrow> bool" where
  "follows_order order calls \<longleftrightarrow> filter (\<lambda>e. e \<in> set order) calls = order"

text \<open>
  The scheme's contract per step as the specification lists it, items 1 to 9. Item 5,
  the assembly and solution of the linear system and the displacement correction, is
  the parameter \<open>correction\<close>.
\<close>

definition spec_scheme_contract ::
    "('v event \<Rightarrow> 'w \<Rightarrow> 'w) \<Rightarrow> ('w \<Rightarrow> 'w) \<Rightarrow> nat \<Rightarrow> ('w, 'v) solver \<Rightarrow> 'w \<Rightarrow> 'w" where
  "spec_scheme_contract perform correction phase s w =
     (let w1 = perform Scheme_initialise w;
          w2 = perform (Compute_nodal_kinematics phase) w1;
          w3 = perform (Update_nodal_kinematics_newmark phase (newmark_beta s) (newmark_gamma s)) w2;
          w4 = perform (Compute_forces (gravity s) phase (step s) (set_node_concentrated_force s)) w3;
          w5 = correction w4;
          w6 = perform (Update_nodal_kinematics_newmark phase (newmark_beta s) (newmark_gamma s)) w5;
          w7 = perform (Compute_particle_kinematics (velocity_update s) phase ''Cundall''
                 (damping_factor s)) w6;
          w8 = perform (Postcompute_stress_strain phase (pressure_smoothing s)) w7
      in perform (Locate_particles (locate_particles s)) w8)"

section \<open>A concrete run\<close>

text \<open>
  A solver with three steps, output and load balancing every second step, a resume
  request and a checkpoint record at step 1. Its world is the list of the calls that
  acted on it.
\<close>

definition demo_perform :: "bool event \<Rightarrow> bool event list \<Rightarrow> bool event list" where
  "demo_perform e w = w @ [e]"

definition demo_build :: build where
  "demo_build = \<lparr>use_mpi = True, use_graph_partitioning = True, use_vtk = True, use_partio = False\<rparr>"

definition serial_build :: build where
  "serial_build =
     \<lparr>use_mpi = False, use_graph_partitioning = False, use_vtk = False, use_partio = False\<rparr>"

definition demo_solver :: "(bool event list, bool) solver" where
  "demo_solver =
     \<lparr>analysis = JObject [(''resume'', JObject [(''resume'', JBool True)])],
      io_analysis_bool = (\<lambda>key. key = ''pressure_smoothing''),
      persisted_step = Some 1,
      step = 0,
      nsteps = 3,
      output_steps = 2,
      nload_balance_steps = 2,
      dt = 1,
      newmark_beta = 1 / 4,
      newmark_gamma = 1 / 2,
      gravity = [0, - 981 / 100],
      set_node_concentrated_force = False,
      velocity_update = True,
      damping_type = ''None'',
      damping_factor = 0,
      locate_particles = True,
      pressure_smoothing = False,
      interface = False,
      world = [],
      trace = []\<rparr>"

section \<open>The code in closed form\<close>

lemma effects_append: "effects p (xs @ ys) w = effects p ys (effects p xs w)"
  by (simp add: effects_def)

lemma effects_simps [simp]: "effects p [] w = w" "effects p (e # es) w = effects p es (p e w)"
  by (simp_all add: effects_def)

lemma load_balance_eq:
  "load_balance b p s =
     (if use_mpi b \<and> use_graph_partitioning b \<and> nload_balance_steps s = 0
      then Inl Division_by_zero
      else Inr (s\<lparr>world := effects p (balance_events b s (step s)) (world s),
                  trace := trace s @ balance_events b s (step s)\<rparr>))"
  by (simp add: load_balance_def balance_events_def call_def)

lemma scheme_step_eq:
  "scheme_step p phase s =
     s\<lparr>world := effects p (scheme_events phase s (step s)) (world s),
       trace := trace s @ scheme_events phase s (step s)\<rparr>"
  by (simp add: scheme_step_def scheme_events_def call_def Let_def)

lemma halo_transfer_eq:
  "halo_transfer b p s =
     s\<lparr>world := effects p (halo_events b) (world s), trace := trace s @ halo_events b\<rparr>"
  by (simp add: halo_transfer_def halo_events_def call_def)

lemma write_outputs_eq:
  "write_outputs b s =
     (if output_steps s = 0 then Inl Division_by_zero
      else Inr (s\<lparr>trace := trace s @ writer_events b s (step s)\<rparr>))"
  by (simp add: write_outputs_def writer_events_def write_out_def Let_def)

lemma solve_step_eq:
  "solve_step b p phase s =
     (if steps_can_run b s
      then Inr (s\<lparr>world := effects p (simulation_events b phase s (step s)) (world s),
                  trace := trace s @ step_events b phase s (step s)\<rparr>)
      else Inl Division_by_zero)"
  by (simp add: solve_step_def load_balance_eq scheme_step_eq halo_transfer_eq write_outputs_eq
        steps_can_run_def step_events_def simulation_events_def effects_append
        scheme_events_def writer_events_def)

lemma events_frame [simp]:
  "step_events b phase (s\<lparr>world := w\<rparr>) = step_events b phase s"
  "step_events b phase (s\<lparr>trace := t\<rparr>) = step_events b phase s"
  "step_events b phase (s\<lparr>step := k\<rparr>) = step_events b phase s"
  "simulation_events b phase (s\<lparr>world := w\<rparr>) = simulation_events b phase s"
  "simulation_events b phase (s\<lparr>trace := t\<rparr>) = simulation_events b phase s"
  "simulation_events b phase (s\<lparr>step := k\<rparr>) = simulation_events b phase s"
  "steps_can_run b (s\<lparr>world := w\<rparr>) = steps_can_run b s"
  "steps_can_run b (s\<lparr>trace := t\<rparr>) = steps_can_run b s"
  "steps_can_run b (s\<lparr>step := k\<rparr>) = steps_can_run b s"
  by (simp_all add: step_events_def simulation_events_def balance_events_def scheme_events_def
        writer_events_def steps_can_run_def fun_eq_iff)

lemma main_loop_eq:
  "main_loop b p phase s =
     (if step s < nsteps s \<and> \<not> steps_can_run b s then Inl Division_by_zero
      else Inr (s\<lparr>step := max (step s) (nsteps s),
                  world := effects p (concat (map (simulation_events b phase s) [step s..<nsteps s]))
                             (world s),
                  trace := trace s @ concat (map (step_events b phase s) [step s..<nsteps s])\<rparr>))"
proof (induction b p phase s rule: main_loop.induct)
  case (1 b p phase s)
  show ?case
  proof (cases "step s < nsteps s")
    case False
    then show ?thesis
      by (subst main_loop.simps) (simp add: max_def)
  next
    case True
    show ?thesis
    proof (cases "steps_can_run b s")
      case False
      with True show ?thesis
        by (subst main_loop.simps) (simp add: solve_step_eq)
    next
      case run: True
      let ?s' = "s\<lparr>world := effects p (simulation_events b phase s (step s)) (world s),
                    trace := trace s @ step_events b phase s (step s)\<rparr>"
      have st: "solve_step b p phase s = Inr ?s'"
        using run by (simp add: solve_step_eq)
      have ih: "main_loop b p phase (?s'\<lparr>step := step ?s' + 1\<rparr>) =
          Inr (s\<lparr>step := max (step s) (nsteps s),
                  world := effects p (concat (map (simulation_events b phase s) [step s..<nsteps s]))
                             (world s),
                  trace := trace s @ concat (map (step_events b phase s) [step s..<nsteps s])\<rparr>)"
        using "1.IH" [OF True st] True run
        by (simp add: upt_conv_Cons effects_append max_def)
      show ?thesis
        using True run ih by (subst main_loop.simps) (simp add: st)
    qed
  qed
qed

lemma setup_fresh:
  assumes "read_resume (analysis s) = Inr False"
  shows "solve_setup b p s =
     Inr ((configured s)
       \<lparr>world := effects p ([Initialise_materials, Initialise_mesh] @ fresh_start_events
                   @ [Initialise_loads]) (world s),
        trace := trace s @ [Initialise_materials, Initialise_mesh] @ fresh_start_events
                   @ [Initialise_loads]\<rparr>)"
  using assms
  by (simp add: solve_setup_def check_point_resume_def resume_or_initialise_def configured_def
        fresh_start_events_def call_def Let_def)

lemma setup_failed:
  assumes "read_resume (analysis s) = Inr True" and "persisted_step s = None"
  shows "solve_setup b p s =
     Inr ((configured s)
       \<lparr>world := effects p ([Initialise_materials, Initialise_mesh, Initialise_particle_types]
                   @ fresh_start_events @ [Initialise_loads]) (world s),
        trace := trace s @ [Initialise_materials, Initialise_mesh, Initialise_particle_types,
                   Checkpoint_resume] @ fresh_start_events @ [Initialise_loads]\<rparr>)"
  using assms
  by (simp add: solve_setup_def check_point_resume_def checkpoint_resume_def
        resume_or_initialise_def configured_def fresh_start_events_def call_def write_out_def
        Let_def)

lemma setup_resumed:
  assumes "read_resume (analysis s) = Inr True" and "persisted_step s = Some k"
  shows "solve_setup b p s =
     Inr ((configured s)
       \<lparr>step := k,
        world := effects p ([Initialise_materials, Initialise_mesh, Initialise_particle_types,
                   Checkpoint_resume] @ resume_events b @ [Initialise_loads]) (world s),
        trace := trace s @ [Initialise_materials, Initialise_mesh, Initialise_particle_types,
                   Checkpoint_resume] @ resume_events b @ [Initialise_loads]\<rparr>)"
  using assms
  by (simp add: solve_setup_def check_point_resume_def checkpoint_resume_def
        resume_or_initialise_def configured_def resume_events_def call_def Let_def)

lemma setup_fault:
  "read_resume (analysis s) = Inl f \<Longrightarrow> solve_setup b p s = Inl f"
  by (simp add: solve_setup_def)

lemma read_resume_absent:
  "json_find a ''resume'' = None \<Longrightarrow> read_resume a = Inr False"
  by (simp add: read_resume_def)

lemma configured_frame [simp]:
  "step_events b phase (s\<lparr>interface := i\<rparr>) = step_events b phase s"
  "simulation_events b phase (s\<lparr>interface := i\<rparr>) = simulation_events b phase s"
  "steps_can_run b (s\<lparr>interface := i\<rparr>) = steps_can_run b s"
  "steps_can_run b (s\<lparr>pressure_smoothing := i\<rparr>) = steps_can_run b s"
  "steps_can_run b (configured s) = steps_can_run b s"
  "step (configured s) = step s" "nsteps (configured s) = nsteps s"
  "world (configured s) = world s" "trace (configured s) = trace s"
  by (simp_all add: step_events_def simulation_events_def balance_events_def scheme_events_def
        writer_events_def steps_can_run_def fun_eq_iff configured_def)

lemma solve_fresh:
  assumes "read_resume (analysis s) = Inr False" and "steps_can_run b s"
  shows "solve b p s =
     Inr (True, (configured s)
       \<lparr>step := max (step s) (nsteps s),
        world := effects p ([Initialise_materials, Initialise_mesh] @ fresh_start_events
                   @ [Initialise_loads]
                   @ concat (map (simulation_events b 0 (configured s)) [step s..<nsteps s]))
                   (world s),
        trace := trace s @ [Initialise_materials, Initialise_mesh] @ fresh_start_events
                   @ [Initialise_loads]
                   @ concat (map (step_events b 0 (configured s)) [step s..<nsteps s])\<rparr>)"
  using assms
  by (simp add: solve_def setup_fresh main_loop_eq effects_append)

lemma step_calls_eq:
  "step_calls b p phase s =
     (if steps_can_run b s then Some (step_events b phase s (step s)) else None)"
  by (simp add: step_calls_def solve_step_eq)

lemma demo_can_run [simp]:
  "steps_can_run demo_build demo_solver" "steps_can_run serial_build demo_solver"
  by (simp_all add: steps_can_run_def demo_solver_def)

lemma demo_resume [simp]: "read_resume (analysis demo_solver) = Inr True"
  by (simp add: read_resume_def demo_solver_def)

lemma setup_calls_fresh:
  "read_resume (analysis s) = Inr False \<Longrightarrow>
   setup_calls b p s =
     Some ([Initialise_materials, Initialise_mesh] @ fresh_start_events @ [Initialise_loads])"
  by (simp add: setup_calls_def setup_fresh)

lemma setup_calls_failed:
  "read_resume (analysis s) = Inr True \<Longrightarrow> persisted_step s = None \<Longrightarrow>
   setup_calls b p s =
     Some ([Initialise_materials, Initialise_mesh, Initialise_particle_types, Checkpoint_resume]
           @ fresh_start_events @ [Initialise_loads])"
  by (simp add: setup_calls_def setup_failed)

lemma setup_calls_resumed:
  "read_resume (analysis s) = Inr True \<Longrightarrow> persisted_step s = Some k \<Longrightarrow>
   setup_calls b p s =
     Some ([Initialise_materials, Initialise_mesh, Initialise_particle_types, Checkpoint_resume]
           @ resume_events b @ [Initialise_loads])"
  by (simp add: setup_calls_def setup_resumed)


lemma solve_resumed:
  assumes "read_resume (analysis s) = Inr True" and "persisted_step s = Some k"
    and "steps_can_run b s"
  shows "solve b p s =
     Inr (True, (configured s)
       \<lparr>step := max k (nsteps s),
        world := effects p ([Initialise_materials, Initialise_mesh, Initialise_particle_types,
                   Checkpoint_resume] @ resume_events b @ [Initialise_loads]
                   @ concat (map (simulation_events b 0 (configured s)) [k..<nsteps s]))
                   (world s),
        trace := trace s @ [Initialise_materials, Initialise_mesh, Initialise_particle_types,
                   Checkpoint_resume] @ resume_events b @ [Initialise_loads]
                   @ concat (map (step_events b 0 (configured s)) [k..<nsteps s])\<rparr>)"
  using assms
  by (simp add: solve_def setup_resumed main_loop_eq effects_append)

lemma count_events [simp]:
  "rebalances (xs @ ys) = rebalances xs + rebalances ys"
  "initial_partitions (xs @ ys) = initial_partitions xs + initial_partitions ys"
  "rebalances [] = 0" "initial_partitions [] = 0"
  "rebalances (e # es) = (if e = Mpi_domain_decompose False then 1 else 0) + rebalances es"
  "initial_partitions (e # es) = (if e = Mpi_domain_decompose True then 1 else 0) + initial_partitions es"
  by (simp_all add: rebalances_def initial_partitions_def)

lemma step_events_counts:
  "rebalances (step_events b phase s k) =
     (if use_mpi b \<and> use_graph_partitioning b \<and> k mod nload_balance_steps s = 0 \<and> k \<noteq> 0
      then 1 else 0)"
  "initial_partitions (step_events b phase s k) = 0"
  by (simp_all add: step_events_def simulation_events_def balance_events_def scheme_events_def
        halo_events_def writer_events_def)

lemma setup_calls_total:
  "setup_calls b p s =
     (case read_resume (analysis s) of
        Inl f \<Rightarrow> None
      | Inr rq \<Rightarrow>
          Some ([Initialise_materials, Initialise_mesh]
                @ (if rq then [Initialise_particle_types, Checkpoint_resume] else [])
                @ (if rq \<and> persisted_step s \<noteq> None then resume_events b
                   else fresh_start_events)
                @ [Initialise_loads]))"
proof (cases "read_resume (analysis s)")
  case (Inl f)
  then show ?thesis
    by (simp add: setup_calls_def setup_fault)
next
  case (Inr rq)
  then show ?thesis
    by (cases rq; cases "persisted_step s")
       (simp_all add: setup_calls_fresh setup_calls_failed setup_calls_resumed)
qed

lemma writer_calls_step_events:
  "writer_calls (step_events b phase s k) = writer_events b s k"
  by (simp add: writer_calls_def step_events_def simulation_events_def balance_events_def
        scheme_events_def halo_events_def writer_events_def)

lemma particle_kinematics_calls_step_events:
  "particle_kinematics_calls (step_events b phase s k) =
     [Compute_particle_kinematics (velocity_update s) phase ''Cundall'' (damping_factor s)]"
  by (simp add: particle_kinematics_calls_def step_events_def simulation_events_def
        balance_events_def scheme_events_def halo_events_def writer_events_def)

lemma scheme_step_world:
  "world (scheme_step p phase s) =
     spec_scheme_contract p (\<lambda>w. w) phase s (p (Inject_particles (real (step s) * dt s)) (world s))"
  by (simp add: scheme_step_def spec_scheme_contract_def call_def Let_def)

lemma scheme_events_world:
  "effects p (scheme_events phase s (step s)) w =
     spec_scheme_contract p (\<lambda>w. w) phase s (p (Inject_particles (real (step s) * dt s)) w)"
  by (simp add: scheme_events_def spec_scheme_contract_def Let_def)

lemma step_events_no_fresh_start:
  "Initialise_particles \<notin> set (step_events b phase s k)"
  "Mpi_domain_decompose True \<notin> set (step_events b phase s k)"
  by (simp_all add: step_events_def simulation_events_def balance_events_def scheme_events_def
        halo_events_def writer_events_def)

lemma steps_run_append: "steps_run (xs @ ys) = steps_run xs @ steps_run ys"
  by (induction xs rule: steps_run.induct) simp_all

lemma steps_run_step_events: "steps_run (step_events b phase s k) = [k]"
  by (simp add: step_events_def simulation_events_def balance_events_def scheme_events_def
        halo_events_def writer_events_def steps_run_append)

lemma steps_run_steps: "steps_run (concat (map (step_events b phase s) ks)) = ks"
  by (induction ks) (simp_all add: steps_run_append steps_run_step_events)

lemma steps_run_setup:
  "steps_run (fresh_start_events :: 'v event list) = []"
  "steps_run (resume_events b :: 'v event list) = []"
  by (simp_all add: fresh_start_events_def resume_events_def)

lemma effects_demo: "effects demo_perform es w = w @ es"
  by (induction es arbitrary: w) (simp_all add: demo_perform_def)


lemma resume_code:
  "call p Initialise_loads (resume_or_initialise b p True q) =
     q\<lparr>world := effects p (resume_events b @ [Initialise_loads]) (world q),
       trace := trace q @ resume_events b @ [Initialise_loads]\<rparr>"
  by (simp add: resume_or_initialise_def resume_events_def call_def Let_def)


lemma solve_calls_resumed:
  assumes "read_resume (analysis s) = Inr True" and "persisted_step s = Some k"
    and "steps_can_run b s"
  shows "map_option steps_run (solve_calls b p s) = Some [k..<nsteps s]"
  using assms
  by (simp add: solve_calls_def solve_resumed steps_run_append steps_run_steps steps_run_setup)

lemma main_loop_steps:
  assumes "steps_can_run b q"
  shows "\<exists>r. main_loop b p phase q = Inr r
           \<and> steps_run (drop (length (trace q)) (trace r)) = [step q..<nsteps q]"
  using assms by (simp add: main_loop_eq steps_run_steps)

section \<open>The claims\<close>

text \<open>
  C1, as stated: in every step the operations run in the order inject, scheme
  initialise, nodal kinematics, predictor, forces, corrector, particle kinematics,
  stress and strain, locate particles, then the load balancer, then the writers. This
  fails: in the third step of the concrete run (index 2, where load balancing is due)
  the load balancer is the first call of the step, before the injection of particles.
\<close>

theorem C1_counterexample:
  "map_option (follows_order (spec_step_order demo_build 0 demo_solver 2))
     (step_calls demo_build demo_perform 0 (demo_solver\<lparr>step := 2\<rparr>)) = Some False"
  by (simp add: step_calls_eq follows_order_def spec_step_order_def step_events_def
        simulation_events_def balance_events_def scheme_events_def halo_events_def
        writer_events_def steps_can_run_def demo_build_def demo_solver_def)

text \<open>
  C1, amended: every step that the main loop executes makes its calls in this fixed
  order: first the load balancer when it is compiled in and due, then the nine scheme
  operations from particle injection to locate particles (the corrector after the
  predictor, with the force computation between them), then the halo transfer and its
  barrier when compiled in, then the writers when they are due. The loop makes exactly
  these calls for the step indices from its entry value up to \<open>nsteps - 1\<close>, in
  increasing order.
\<close>

theorem C1_step_order:
  assumes "steps_can_run b s"
  shows "step_calls b p phase s =
           Some (balance_events b s (step s) @ scheme_events phase s (step s) @ halo_events b
                 @ writer_events b s (step s))
       \<and> (\<exists>r. main_loop b p phase s = Inr r
             \<and> trace r = trace s @ concat (map (step_events b phase s) [step s..<nsteps s]))
       \<and> (\<forall>k. step_events b phase s k =
               balance_events b s k @ scheme_events phase s k @ halo_events b
               @ writer_events b s k)"
  using assms
  by (simp add: step_calls_eq main_loop_eq step_events_def simulation_events_def)

theorem C1_step_order_witness:
  "steps_can_run demo_build (demo_solver\<lparr>step := 2\<rparr>)
   \<and> step_calls demo_build demo_perform 0 (demo_solver\<lparr>step := 2\<rparr>) =
       Some [Mpi_domain_decompose False, Inject_particles 2, Scheme_initialise,
             Compute_nodal_kinematics 0, Update_nodal_kinematics_newmark 0 (1 / 4) (1 / 2),
             Compute_forces [0, - 981 / 100] 0 2 False,
             Update_nodal_kinematics_newmark 0 (1 / 4) (1 / 2),
             Compute_particle_kinematics True 0 ''Cundall'' 0,
             Postcompute_stress_strain 0 False, Locate_particles True,
             Transfer_halo_particles, Mpi_barrier, Write_hdf5 2 3, Write_vtk 2 3]"
  using C1_step_order [of demo_build "demo_solver\<lparr>step := 2\<rparr>" demo_perform 0]
  by (simp add: balance_events_def scheme_events_def halo_events_def
        writer_events_def demo_build_def demo_solver_def steps_can_run_def)




text \<open>
  C3: in every iteration of the main loop the second call of
  \<^verbatim>\<open>update_nodal_kinematics_newmark\<close> follows \<^verbatim>\<open>compute_forces\<close> with no call between
  them, so no stiffness assembly, linear solve or displacement update happens there.
  The world after the scheme operations of the iteration is the one the scheme's
  contract of the specification gives when its item 5, the correction, is the identity:
  the corrector works on the predictor's trial state as \<^verbatim>\<open>compute_forces\<close> left it.
\<close>

theorem C3_predictor_only:
  assumes "steps_can_run b s"
  shows "world (scheme_step p phase s) =
           spec_scheme_contract p (\<lambda>w. w) phase s
             (p (Inject_particles (real (step s) * dt s)) (world s))
       \<and> (\<exists>s'. solve_step b p phase s = Inr s'
            \<and> trace s' = trace s @ balance_events b s (step s)
                @ [Inject_particles (real (step s) * dt s), Scheme_initialise,
                   Compute_nodal_kinematics phase]
                @ [Update_nodal_kinematics_newmark phase (newmark_beta s) (newmark_gamma s),
                   Compute_forces (gravity s) phase (step s) (set_node_concentrated_force s),
                   Update_nodal_kinematics_newmark phase (newmark_beta s) (newmark_gamma s)]
                @ [Compute_particle_kinematics (velocity_update s) phase ''Cundall''
                     (damping_factor s),
                   Postcompute_stress_strain phase (pressure_smoothing s),
                   Locate_particles (locate_particles s)]
                @ halo_events b @ writer_events b s (step s)
            \<and> world s' = effects p (halo_events b)
                (spec_scheme_contract p (\<lambda>w. w) phase s
                  (p (Inject_particles (real (step s) * dt s))
                    (effects p (balance_events b s (step s)) (world s)))))"
  using assms
  by (simp add: scheme_step_world solve_step_eq step_events_def simulation_events_def
        effects_append scheme_events_world)
     (simp add: scheme_events_def)

theorem C3_predictor_only_witness:
  "steps_can_run demo_build (demo_solver\<lparr>step := 1\<rparr>)
   \<and> (\<exists>s'. solve_step demo_build demo_perform 0 (demo_solver\<lparr>step := 1\<rparr>) = Inr s'
        \<and> trace s' =
            [Inject_particles 1, Scheme_initialise, Compute_nodal_kinematics 0,
             Update_nodal_kinematics_newmark 0 (1 / 4) (1 / 2),
             Compute_forces [0, - 981 / 100] 0 1 False,
             Update_nodal_kinematics_newmark 0 (1 / 4) (1 / 2),
             Compute_particle_kinematics True 0 ''Cundall'' 0,
             Postcompute_stress_strain 0 False, Locate_particles True,
             Transfer_halo_particles, Mpi_barrier]
        \<and> world s' = trace s')"
proof -
  have c: "steps_can_run demo_build (demo_solver\<lparr>step := 1\<rparr>)"
    by (simp add: steps_can_run_def demo_solver_def)
  from C3_predictor_only [OF c, of demo_perform 0]
  obtain R where R: "solve_step demo_build demo_perform 0 (demo_solver\<lparr>step := 1\<rparr>) = Inr R"
    and T: "trace R = trace (demo_solver\<lparr>step := 1\<rparr>)
                @ balance_events demo_build (demo_solver\<lparr>step := 1\<rparr>)
                    (step (demo_solver\<lparr>step := 1\<rparr>))
                @ [Inject_particles (real (step (demo_solver\<lparr>step := 1\<rparr>))
                     * dt (demo_solver\<lparr>step := 1\<rparr>)), Scheme_initialise,
                   Compute_nodal_kinematics 0]
                @ [Update_nodal_kinematics_newmark 0 (newmark_beta (demo_solver\<lparr>step := 1\<rparr>))
                     (newmark_gamma (demo_solver\<lparr>step := 1\<rparr>)),
                   Compute_forces (gravity (demo_solver\<lparr>step := 1\<rparr>)) 0
                     (step (demo_solver\<lparr>step := 1\<rparr>))
                     (set_node_concentrated_force (demo_solver\<lparr>step := 1\<rparr>)),
                   Update_nodal_kinematics_newmark 0 (newmark_beta (demo_solver\<lparr>step := 1\<rparr>))
                     (newmark_gamma (demo_solver\<lparr>step := 1\<rparr>))]
                @ [Compute_particle_kinematics (velocity_update (demo_solver\<lparr>step := 1\<rparr>)) 0
                     ''Cundall'' (damping_factor (demo_solver\<lparr>step := 1\<rparr>)),
                   Postcompute_stress_strain 0 (pressure_smoothing (demo_solver\<lparr>step := 1\<rparr>)),
                   Locate_particles (locate_particles (demo_solver\<lparr>step := 1\<rparr>))]
                @ halo_events demo_build
                @ writer_events demo_build (demo_solver\<lparr>step := 1\<rparr>)
                    (step (demo_solver\<lparr>step := 1\<rparr>))"
    and W: "world R = effects demo_perform (halo_events demo_build)
                (spec_scheme_contract demo_perform (\<lambda>w. w) 0 (demo_solver\<lparr>step := 1\<rparr>)
                  (demo_perform (Inject_particles (real (step (demo_solver\<lparr>step := 1\<rparr>))
                       * dt (demo_solver\<lparr>step := 1\<rparr>)))
                    (effects demo_perform
                       (balance_events demo_build (demo_solver\<lparr>step := 1\<rparr>)
                          (step (demo_solver\<lparr>step := 1\<rparr>)))
                       (world (demo_solver\<lparr>step := 1\<rparr>)))))"
    by blast
  have t: "trace R =
            [Inject_particles 1, Scheme_initialise, Compute_nodal_kinematics 0,
             Update_nodal_kinematics_newmark 0 (1 / 4) (1 / 2),
             Compute_forces [0, - 981 / 100] 0 1 False,
             Update_nodal_kinematics_newmark 0 (1 / 4) (1 / 2),
             Compute_particle_kinematics True 0 ''Cundall'' 0,
             Postcompute_stress_strain 0 False, Locate_particles True,
             Transfer_halo_particles, Mpi_barrier]"
    unfolding T
    by (simp add: balance_events_def halo_events_def writer_events_def demo_build_def
          demo_solver_def)
  have w: "world R = trace R"
    unfolding W t
    by (simp add: balance_events_def halo_events_def spec_scheme_contract_def demo_perform_def
          demo_build_def demo_solver_def Let_def)
  from c R t w show ?thesis by simp
qed

text \<open>
  C4: when the configuration requests a resume and \<^verbatim>\<open>checkpoint_resume\<close> succeeds
  with the persisted step index \<open>k\<close>, \<^verbatim>\<open>solve\<close> calls
  \<^verbatim>\<open>resume_domain_cell_ranks\<close>, then rebuilds the particle entity sets and the velocity
  constraints: the world before the loop is the one these calls produce, after the
  restored checkpoint. It neither initialises particles nor decomposes the domain
  afresh, before the loop or in any step. The code of the resume branch performs its
  calls on whatever state the attempt leaves and changes nothing else of it, the step
  counter included; the main loop runs the steps from the counter it is entered with.
  So the run makes the calls of the steps \<open>k, k + 1, ..., nsteps - 1\<close>, in this order and
  no others, and its world is the effect of all these calls.
\<close>

theorem C4_successful_resume:
  assumes "read_resume (analysis s) = Inr True" and "persisted_step s = Some k"
  shows "setup_calls b p s =
           Some ([Initialise_materials, Initialise_mesh, Initialise_particle_types,
                  Checkpoint_resume] @ resume_events b @ [Initialise_loads])
       \<and> resume_events b =
           [Resume_domain_cell_ranks]
           @ (if use_mpi b \<and> use_graph_partitioning b then [Mpi_barrier] else [])
           @ [Particle_entity_sets False, Particle_velocity_constraints]
       \<and> solve_setup b p s =
           Inr ((configured s)
             \<lparr>step := k,
              world := effects p ([Initialise_materials, Initialise_mesh,
                         Initialise_particle_types, Checkpoint_resume] @ resume_events b
                         @ [Initialise_loads]) (world s),
              trace := trace s @ [Initialise_materials, Initialise_mesh,
                         Initialise_particle_types, Checkpoint_resume] @ resume_events b
                         @ [Initialise_loads]\<rparr>)
       \<and> (\<forall>q. call p Initialise_loads (resume_or_initialise b p True q) =
                q\<lparr>world := effects p (resume_events b @ [Initialise_loads]) (world q),
                  trace := trace q @ resume_events b @ [Initialise_loads]\<rparr>)
       \<and> (steps_can_run b s \<longrightarrow>
            solve b p s =
              Inr (True, (configured s)
                \<lparr>step := max k (nsteps s),
                 world := effects p ([Initialise_materials, Initialise_mesh,
                            Initialise_particle_types, Checkpoint_resume] @ resume_events b
                            @ [Initialise_loads]
                            @ concat (map (simulation_events b 0 (configured s)) [k..<nsteps s]))
                            (world s),
                 trace := trace s @ [Initialise_materials, Initialise_mesh,
                            Initialise_particle_types, Checkpoint_resume] @ resume_events b
                            @ [Initialise_loads]
                            @ concat (map (step_events b 0 (configured s)) [k..<nsteps s])\<rparr>)
            \<and> map_option steps_run (solve_calls b p s) = Some [k..<nsteps s])
       \<and> (\<forall>j. Initialise_particles \<notin> set (step_events b 0 (configured s) j)
              \<and> Mpi_domain_decompose True \<notin> set (step_events b 0 (configured s) j))
       \<and> (\<forall>q. steps_can_run b q \<longrightarrow>
              (\<exists>r. main_loop b p 0 q = Inr r
                 \<and> steps_run (drop (length (trace q)) (trace r)) = [step q..<nsteps q]))"
  (is "?A \<and> ?B \<and> ?C \<and> ?G \<and> ?D \<and> ?E \<and> ?H")
proof -
  have a: ?A using assms by (rule setup_calls_resumed)
  have b: ?B by (simp add: resume_events_def)
  have c: ?C using assms by (rule setup_resumed)
  have g: ?G by (simp add: resume_code)
  have d: ?D
  proof
    assume h: "steps_can_run b s"
    show "solve b p s =
              Inr (True, (configured s)
                \<lparr>step := max k (nsteps s),
                 world := effects p ([Initialise_materials, Initialise_mesh,
                            Initialise_particle_types, Checkpoint_resume] @ resume_events b
                            @ [Initialise_loads]
                            @ concat (map (simulation_events b 0 (configured s)) [k..<nsteps s]))
                            (world s),
                 trace := trace s @ [Initialise_materials, Initialise_mesh,
                            Initialise_particle_types, Checkpoint_resume] @ resume_events b
                            @ [Initialise_loads]
                            @ concat (map (step_events b 0 (configured s)) [k..<nsteps s])\<rparr>)
            \<and> map_option steps_run (solve_calls b p s) = Some [k..<nsteps s]"
      using solve_resumed [OF assms h] solve_calls_resumed [OF assms h] by simp
  qed
  have e: ?E by (simp add: step_events_no_fresh_start)
  have h: ?H by (simp add: main_loop_steps)
  from a b c g d e h show ?thesis by blast
qed

theorem C4_successful_resume_witness:
  "read_resume (analysis demo_solver) = Inr True
   \<and> persisted_step demo_solver = Some 1
   \<and> steps_can_run serial_build demo_solver
   \<and> map_option steps_run (solve_calls serial_build demo_perform demo_solver) = Some [1, 2]
   \<and> (\<exists>r. solve serial_build demo_perform demo_solver = Inr (True, r)
          \<and> step r = 3
          \<and> trace r =
            [Initialise_materials, Initialise_mesh, Initialise_particle_types, Checkpoint_resume,
             Resume_domain_cell_ranks, Particle_entity_sets False, Particle_velocity_constraints,
             Initialise_loads,
             Inject_particles 1, Scheme_initialise, Compute_nodal_kinematics 0,
             Update_nodal_kinematics_newmark 0 (1 / 4) (1 / 2),
             Compute_forces [0, - 981 / 100] 0 1 False,
             Update_nodal_kinematics_newmark 0 (1 / 4) (1 / 2),
             Compute_particle_kinematics True 0 ''Cundall'' 0,
             Postcompute_stress_strain 0 True, Locate_particles True,
             Inject_particles 2, Scheme_initialise, Compute_nodal_kinematics 0,
             Update_nodal_kinematics_newmark 0 (1 / 4) (1 / 2),
             Compute_forces [0, - 981 / 100] 0 2 False,
             Update_nodal_kinematics_newmark 0 (1 / 4) (1 / 2),
             Compute_particle_kinematics True 0 ''Cundall'' 0,
             Postcompute_stress_strain 0 True, Locate_particles True,
             Write_hdf5 2 3]
          \<and> world r =
            [Initialise_materials, Initialise_mesh, Initialise_particle_types, Checkpoint_resume,
             Resume_domain_cell_ranks, Particle_entity_sets False, Particle_velocity_constraints,
             Initialise_loads,
             Inject_particles 1, Scheme_initialise, Compute_nodal_kinematics 0,
             Update_nodal_kinematics_newmark 0 (1 / 4) (1 / 2),
             Compute_forces [0, - 981 / 100] 0 1 False,
             Update_nodal_kinematics_newmark 0 (1 / 4) (1 / 2),
             Compute_particle_kinematics True 0 ''Cundall'' 0,
             Postcompute_stress_strain 0 True, Locate_particles True,
             Inject_particles 2, Scheme_initialise, Compute_nodal_kinematics 0,
             Update_nodal_kinematics_newmark 0 (1 / 4) (1 / 2),
             Compute_forces [0, - 981 / 100] 0 2 False,
             Update_nodal_kinematics_newmark 0 (1 / 4) (1 / 2),
             Compute_particle_kinematics True 0 ''Cundall'' 0,
             Postcompute_stress_strain 0 True, Locate_particles True])"
proof -
  have r: "read_resume (analysis demo_solver) = Inr True"
    by (simp add: read_resume_def demo_solver_def)
  have k: "persisted_step demo_solver = Some 1"
    by (simp add: demo_solver_def)
  have c: "steps_can_run serial_build demo_solver"
    by (simp add: steps_can_run_def demo_solver_def)
  have u: "[1..<nsteps demo_solver] = [1, 2]"
    by (simp add: demo_solver_def upt_conv_Cons)
  note t = C4_successful_resume [OF r k, of serial_build demo_perform]
  note d = conjunct1 [OF conjunct2 [OF conjunct2 [OF conjunct2 [OF conjunct2 [OF t]]]]]
  have 2: "map_option steps_run (solve_calls serial_build demo_perform demo_solver) = Some [1, 2]"
    using d c u by simp
  from d c have 3: "solve serial_build demo_perform demo_solver =
              Inr (True, (configured demo_solver)
                \<lparr>step := max 1 (nsteps demo_solver),
                 world := effects demo_perform ([Initialise_materials, Initialise_mesh,
                            Initialise_particle_types, Checkpoint_resume]
                            @ resume_events serial_build @ [Initialise_loads]
                            @ concat (map (simulation_events serial_build 0 (configured demo_solver))
                                [1..<nsteps demo_solver])) (world demo_solver),
                 trace := trace demo_solver @ [Initialise_materials, Initialise_mesh,
                            Initialise_particle_types, Checkpoint_resume]
                            @ resume_events serial_build @ [Initialise_loads]
                            @ concat (map (step_events serial_build 0 (configured demo_solver))
                                [1..<nsteps demo_solver])\<rparr>)"
    by blast
  show ?thesis
    unfolding 3 u 2 effects_demo
    using r k c
    by (simp add: resume_events_def step_events_def simulation_events_def
          balance_events_def scheme_events_def halo_events_def writer_events_def
          configured_def serial_build_def demo_solver_def)
qed

text \<open>
  C5, as stated: the load balancer runs in the main loop exactly at the step indices
  \<open>s\<close> with \<open>s mod nload_balance_steps = 0\<close> and \<open>s \<noteq> 0\<close>. This fails in a build
  without MPI and graph partitioning: at step 2 of the concrete run, with load balancing
  every second step, no decomposition is called.
\<close>

theorem C5_counterexample:
  "step (demo_solver\<lparr>step := 2\<rparr>) mod nload_balance_steps (demo_solver\<lparr>step := 2\<rparr>) = 0
   \<and> step (demo_solver\<lparr>step := 2\<rparr>) \<noteq> 0
   \<and> map_option rebalances (step_calls serial_build demo_perform 0 (demo_solver\<lparr>step := 2\<rparr>))
       = Some 0"
  by (simp add: step_calls_eq step_events_counts steps_can_run_def serial_build_def
        demo_solver_def)

text \<open>
  C5, amended: in a build with MPI and graph partitioning the load balancer runs in the
  main loop exactly at the step indices \<open>s\<close> with \<open>s mod nload_balance_steps = 0\<close> and
  \<open>s \<noteq> 0\<close>, once, with \<open>initial = false\<close>; in any other build it never runs there.
  No step calls the decomposition with \<open>initial = true\<close>: that call is made before the
  main loop, once when the run does not resume from a checkpoint and not at all when it
  does.
\<close>

theorem C5_load_balancing:
  assumes "steps_can_run b s"
  shows "map_option rebalances (step_calls b p phase s) =
           Some (if use_mpi b \<and> use_graph_partitioning b
                    \<and> step s mod nload_balance_steps s = 0 \<and> step s \<noteq> 0
                 then 1 else 0)
       \<and> map_option initial_partitions (step_calls b p phase s) = Some 0
       \<and> (\<exists>r. main_loop b p phase s = Inr r
             \<and> trace r = trace s @ concat (map (step_events b phase s) [step s..<nsteps s]))
       \<and> (\<forall>k. rebalances (step_events b phase s k) =
                 (if use_mpi b \<and> use_graph_partitioning b
                     \<and> k mod nload_balance_steps s = 0 \<and> k \<noteq> 0
                  then 1 else 0)
              \<and> initial_partitions (step_events b phase s k) = 0)
       \<and> map_option initial_partitions (setup_calls b p s) =
           (case read_resume (analysis s) of
              Inl f \<Rightarrow> None
            | Inr rq \<Rightarrow> Some (if rq \<and> persisted_step s \<noteq> None then 0 else 1))
       \<and> map_option rebalances (setup_calls b p s) =
           (case read_resume (analysis s) of Inl f \<Rightarrow> None | Inr rq \<Rightarrow> Some 0)"
  (is "?A \<and> ?B \<and> ?C \<and> ?D \<and> ?E \<and> ?F")
proof -
  have a: ?A and b: ?B
    using assms by (simp_all add: step_calls_eq step_events_counts)
  have c: ?C
    using assms by (simp add: main_loop_eq)
  have d: ?D
    by (simp add: step_events_counts)
  have e: ?E and f: ?F
    by (auto simp: setup_calls_total resume_events_def fresh_start_events_def
          split: sum.splits)
  from a b c d e f show ?thesis by blast
qed

theorem C5_load_balancing_witness:
  "steps_can_run demo_build (demo_solver\<lparr>step := 2\<rparr>)
   \<and> map_option rebalances (step_calls demo_build demo_perform 0 (demo_solver\<lparr>step := 2\<rparr>))
       = Some 1
   \<and> map_option initial_partitions
         (step_calls demo_build demo_perform 0 (demo_solver\<lparr>step := 2\<rparr>)) = Some 0
   \<and> map_option initial_partitions (setup_calls demo_build demo_perform (demo_solver\<lparr>step := 2\<rparr>))
       = Some 0"
proof -
  have c: "steps_can_run demo_build (demo_solver\<lparr>step := 2\<rparr>)"
    by (simp add: steps_can_run_def demo_solver_def)
  have r: "read_resume (analysis (demo_solver\<lparr>step := 2\<rparr>)) = Inr True"
    by (simp add: read_resume_def demo_solver_def)
  have m: "use_mpi demo_build \<and> use_graph_partitioning demo_build
      \<and> step (demo_solver\<lparr>step := 2\<rparr>) mod nload_balance_steps (demo_solver\<lparr>step := 2\<rparr>) = 0
      \<and> step (demo_solver\<lparr>step := 2\<rparr>) \<noteq> 0"
    by (simp add: demo_build_def demo_solver_def)
  have k: "persisted_step (demo_solver\<lparr>step := 2\<rparr>) = Some 1"
    by (simp add: demo_solver_def)
  note t = C5_load_balancing [OF c, of demo_perform 0]
  have 1: "map_option rebalances
      (step_calls demo_build demo_perform 0 (demo_solver\<lparr>step := 2\<rparr>)) = Some 1"
    using conjunct1 [OF t] m by simp
  have 2: "map_option initial_partitions
      (step_calls demo_build demo_perform 0 (demo_solver\<lparr>step := 2\<rparr>)) = Some 0"
    using conjunct1 [OF conjunct2 [OF t]] .
  have 3: "map_option initial_partitions
      (setup_calls demo_build demo_perform (demo_solver\<lparr>step := 2\<rparr>)) = Some 0"
    using conjunct1 [OF conjunct2 [OF conjunct2 [OF conjunct2 [OF conjunct2 [OF t]]]]]
    by (simp add: r k)
  from c 1 2 3 show ?thesis by blast
qed

text \<open>
  C6: \<^verbatim>\<open>compute_stress_strain(phase)\<close> runs, in this order, the strain computation with
  the time increment \<open>dt\<close> over the particles, the volume update over the particles,
  the pressure smoothing if and only if the flag \<open>pressure_smoothing\<close> is set, and the
  stress computation over the particles; without the flag the other three passes are
  the same. The flag is the configuration's: \<^verbatim>\<open>solve\<close> sets it to the answer of
  \<^verbatim>\<open>analysis_bool("pressure_smoothing")\<close>.
\<close>

theorem C6_compute_stress_strain:
  "compute_stress_strain p phase s =
     s\<lparr>world := effects p
                 ([Iterate_over_particles (Compute_strain (dt s)),
                   Iterate_over_particles Update_volume]
                  @ (if pressure_smoothing s then [Pressure_smoothing phase] else [])
                  @ [Iterate_over_particles Compute_stress]) (world s),
       trace := trace s
                 @ [Iterate_over_particles (Compute_strain (dt s)),
                    Iterate_over_particles Update_volume]
                 @ (if pressure_smoothing s then [Pressure_smoothing phase] else [])
                 @ [Iterate_over_particles Compute_stress]\<rparr>
   \<and> (solve_setup b p s = Inr s' \<longrightarrow>
        pressure_smoothing s' = io_analysis_bool s ''pressure_smoothing'')"
proof -
  have "pressure_smoothing s' = io_analysis_bool s ''pressure_smoothing''"
    if "solve_setup b p s = Inr s'"
  proof -
    from that obtain rq where rq: "read_resume (analysis s) = Inr rq"
      by (auto simp: solve_setup_def split: sum.splits)
    show ?thesis
    proof (cases "rq \<and> persisted_step s \<noteq> None")
      case True
      then show ?thesis
        using that rq by (auto simp: setup_resumed configured_def)
    next
      case False
      then show ?thesis
        using that rq by (cases rq) (auto simp: setup_failed setup_fresh configured_def)
    qed
  qed
  then show ?thesis
    by (simp add: compute_stress_strain_def call_def Let_def)
qed

theorem C6_compute_stress_strain_witness:
  "solve_setup demo_build demo_perform demo_solver =
     Inr ((configured demo_solver)
       \<lparr>step := 1,
        world := effects demo_perform
                   ([Initialise_materials, Initialise_mesh, Initialise_particle_types,
                     Checkpoint_resume] @ resume_events demo_build @ [Initialise_loads])
                   (world demo_solver),
        trace := trace demo_solver @ [Initialise_materials, Initialise_mesh,
                   Initialise_particle_types, Checkpoint_resume] @ resume_events demo_build
                   @ [Initialise_loads]\<rparr>)
   \<and> pressure_smoothing ((configured demo_solver)
       \<lparr>step := 1,
        world := effects demo_perform
                   ([Initialise_materials, Initialise_mesh, Initialise_particle_types,
                     Checkpoint_resume] @ resume_events demo_build @ [Initialise_loads])
                   (world demo_solver),
        trace := trace demo_solver @ [Initialise_materials, Initialise_mesh,
                   Initialise_particle_types, Checkpoint_resume] @ resume_events demo_build
                   @ [Initialise_loads]\<rparr>) = True
   \<and> trace (compute_stress_strain demo_perform 0 (configured demo_solver)) =
       [Iterate_over_particles (Compute_strain 1), Iterate_over_particles Update_volume,
        Pressure_smoothing 0, Iterate_over_particles Compute_stress]
   \<and> trace (compute_stress_strain demo_perform 0 demo_solver) =
       [Iterate_over_particles (Compute_strain 1), Iterate_over_particles Update_volume,
        Iterate_over_particles Compute_stress]"
proof -
  have r: "read_resume (analysis demo_solver) = Inr True"
    by (simp add: read_resume_def demo_solver_def)
  have k: "persisted_step demo_solver = Some 1"
    by (simp add: demo_solver_def)
  note e = setup_resumed [OF r k, of demo_build demo_perform]
  have i: "io_analysis_bool demo_solver ''pressure_smoothing'' = True"
    by (simp add: demo_solver_def)
  have a: "trace (compute_stress_strain demo_perform 0 (configured demo_solver)) =
       [Iterate_over_particles (Compute_strain 1), Iterate_over_particles Update_volume,
        Pressure_smoothing 0, Iterate_over_particles Compute_stress]"
    by (subst conjunct1 [OF C6_compute_stress_strain])
       (simp add: configured_def demo_solver_def)
  have b: "trace (compute_stress_strain demo_perform 0 demo_solver) =
       [Iterate_over_particles (Compute_strain 1), Iterate_over_particles Update_volume,
        Iterate_over_particles Compute_stress]"
    by (subst conjunct1 [OF C6_compute_stress_strain]) (simp add: demo_solver_def)
  from conjunct2 [OF C6_compute_stress_strain, of demo_build demo_perform demo_solver] e i a b
  show ?thesis by simp
qed

text \<open>
  C7: in every executed step \<open>s\<close> the writers are called if and only if
  \<open>s mod output_steps = 0\<close>: the HDF5 writer, then the VTK and the Partio writers when
  they are compiled in, each with the current step index and the total step count. The
  write block changes nothing but the record of its calls: the world and every member
  of the solver after the step are those that the other calls of the step produced.
\<close>

theorem C7_output_writers:
  assumes "steps_can_run b s"
  shows "map_option writer_calls (step_calls b p phase s) =
           Some (if step s mod output_steps s = 0
                 then [Write_hdf5 (step s) (nsteps s)]
                      @ (if use_vtk b then [Write_vtk (step s) (nsteps s)] else [])
                      @ (if use_partio b then [Write_partio (step s) (nsteps s)] else [])
                 else [])
       \<and> write_outputs b s =
           Inr (s\<lparr>trace := trace s
                  @ (if step s mod output_steps s = 0
                     then [Write_hdf5 (step s) (nsteps s)]
                          @ (if use_vtk b then [Write_vtk (step s) (nsteps s)] else [])
                          @ (if use_partio b then [Write_partio (step s) (nsteps s)] else [])
                     else [])\<rparr>)
       \<and> solve_step b p phase s =
           Inr (s\<lparr>world := effects p (simulation_events b phase s (step s)) (world s),
                  trace := trace s @ simulation_events b phase s (step s)
                             @ writer_events b s (step s)\<rparr>)
       \<and> writer_calls (simulation_events b phase s (step s)) = []"
  (is "?A \<and> ?B \<and> ?C \<and> ?D")
proof -
  have a: ?A
    using assms
    by (simp add: step_calls_eq writer_calls_step_events) (simp add: writer_events_def)
  have b: ?B
    using assms by (simp add: write_outputs_eq steps_can_run_def writer_events_def)
  have c: ?C
    using assms by (simp add: solve_step_eq step_events_def)
  have d: ?D
    by (simp add: writer_calls_def simulation_events_def balance_events_def scheme_events_def
          halo_events_def)
  from a b c d show ?thesis by blast
qed

theorem C7_output_writers_witness:
  "steps_can_run demo_build (demo_solver\<lparr>step := 2\<rparr>)
   \<and> steps_can_run demo_build (demo_solver\<lparr>step := 1\<rparr>)
   \<and> map_option writer_calls (step_calls demo_build demo_perform 0 (demo_solver\<lparr>step := 2\<rparr>))
       = Some [Write_hdf5 2 3, Write_vtk 2 3]
   \<and> map_option writer_calls (step_calls demo_build demo_perform 0 (demo_solver\<lparr>step := 1\<rparr>))
       = Some []"
proof -
  have c2: "steps_can_run demo_build (demo_solver\<lparr>step := 2\<rparr>)"
    by (simp add: steps_can_run_def demo_solver_def)
  have c1: "steps_can_run demo_build (demo_solver\<lparr>step := 1\<rparr>)"
    by (simp add: steps_can_run_def demo_solver_def)
  have 2: "map_option writer_calls
      (step_calls demo_build demo_perform 0 (demo_solver\<lparr>step := 2\<rparr>)) =
      Some [Write_hdf5 2 3, Write_vtk 2 3]"
    by (subst conjunct1 [OF C7_output_writers [OF c2]])
       (simp add: demo_build_def demo_solver_def)
  have 1: "map_option writer_calls
      (step_calls demo_build demo_perform 0 (demo_solver\<lparr>step := 1\<rparr>)) = Some []"
    by (subst conjunct1 [OF C7_output_writers [OF c1]])
       (simp add: demo_build_def demo_solver_def)
  from c2 c1 2 1 show ?thesis by blast
qed

text \<open>
  C8, as stated: in every step the particle kinematics update is called with the
  configured damping model. This fails: the concrete solver is configured with the
  damping type \<open>None\<close>, and the call names the model \<open>Cundall\<close>.
\<close>

theorem C8_counterexample:
  "map_option particle_kinematics_calls (step_calls demo_build demo_perform 0 demo_solver) =
     Some [Compute_particle_kinematics (velocity_update demo_solver) 0 ''Cundall''
             (damping_factor demo_solver)]
   \<and> damping_type demo_solver \<noteq> ''Cundall''"
  by (simp add: step_calls_eq particle_kinematics_calls_step_events steps_can_run_def
        demo_build_def)
     (simp add: demo_solver_def)

text \<open>
  C8, amended: in every step the particle kinematics update is called once, with the
  damping model that \<^verbatim>\<open>solve\<close> names by the literal \<open>Cundall\<close> whatever damping type
  is configured, with the configured damping factor, and with the configured
  \<open>velocity_update\<close> mode, by which the scheme selects between the pure velocity update
  and the update with position integration. The main loop changes neither member.
\<close>

theorem C8_particle_kinematics:
  assumes "steps_can_run b s"
  shows "map_option particle_kinematics_calls (step_calls b p phase s) =
           Some [Compute_particle_kinematics (velocity_update s) phase ''Cundall''
                   (damping_factor s)]
       \<and> (\<exists>r. main_loop b p phase s = Inr r
             \<and> trace r = trace s @ concat (map (step_events b phase s) [step s..<nsteps s])
             \<and> velocity_update r = velocity_update s \<and> damping_factor r = damping_factor s)
       \<and> (\<forall>k. particle_kinematics_calls (step_events b phase s k) =
                 [Compute_particle_kinematics (velocity_update s) phase ''Cundall''
                    (damping_factor s)])"
  using assms
  by (simp add: step_calls_eq particle_kinematics_calls_step_events main_loop_eq)

theorem C8_particle_kinematics_witness:
  "steps_can_run demo_build demo_solver
   \<and> map_option particle_kinematics_calls (step_calls demo_build demo_perform 0 demo_solver) =
       Some [Compute_particle_kinematics True 0 ''Cundall'' 0]"
proof -
  have c: "steps_can_run demo_build demo_solver"
    by (simp add: steps_can_run_def demo_solver_def)
  have "map_option particle_kinematics_calls (step_calls demo_build demo_perform 0 demo_solver) =
       Some [Compute_particle_kinematics True 0 ''Cundall'' 0]"
    by (subst conjunct1 [OF C8_particle_kinematics [OF c]]) (simp add: demo_solver_def)
  with c show ?thesis by blast
qed

text \<open>
  C9: every execution of \<^verbatim>\<open>solve\<close> that ends normally returns the status true.
\<close>

theorem C9_status_is_true:
  assumes "solve b p s = Inr (status, r)"
  shows "status = True"
  using assms by (auto simp: solve_def split: sum.splits)

theorem C9_status_is_true_witness:
  "solve demo_build demo_perform (demo_solver\<lparr>nsteps := 0\<rparr>) =
     Inr (True, (configured (demo_solver\<lparr>nsteps := 0\<rparr>))
       \<lparr>step := 1,
        world := [Initialise_materials, Initialise_mesh, Initialise_particle_types,
                  Checkpoint_resume, Resume_domain_cell_ranks, Mpi_barrier,
                  Particle_entity_sets False, Particle_velocity_constraints, Initialise_loads],
        trace := [Initialise_materials, Initialise_mesh, Initialise_particle_types,
                  Checkpoint_resume, Resume_domain_cell_ranks, Mpi_barrier,
                  Particle_entity_sets False, Particle_velocity_constraints, Initialise_loads]\<rparr>)
   \<and> True = True"
proof -
  have r: "read_resume (analysis (demo_solver\<lparr>nsteps := 0\<rparr>)) = Inr True"
    by (simp add: read_resume_def demo_solver_def)
  have k: "persisted_step (demo_solver\<lparr>nsteps := 0\<rparr>) = Some 1"
    by (simp add: demo_solver_def)
  have c: "steps_can_run demo_build (demo_solver\<lparr>nsteps := 0\<rparr>)"
    by (simp add: steps_can_run_def demo_solver_def)
  have e: "solve demo_build demo_perform (demo_solver\<lparr>nsteps := 0\<rparr>) =
     Inr (True, (configured (demo_solver\<lparr>nsteps := 0\<rparr>))
       \<lparr>step := 1,
        world := [Initialise_materials, Initialise_mesh, Initialise_particle_types,
                  Checkpoint_resume, Resume_domain_cell_ranks, Mpi_barrier,
                  Particle_entity_sets False, Particle_velocity_constraints, Initialise_loads],
        trace := [Initialise_materials, Initialise_mesh, Initialise_particle_types,
                  Checkpoint_resume, Resume_domain_cell_ranks, Mpi_barrier,
                  Particle_entity_sets False, Particle_velocity_constraints, Initialise_loads]\<rparr>)"
    by (subst solve_resumed [OF r k c])
       (simp add: resume_events_def demo_build_def demo_perform_def configured_def
          demo_solver_def)
  show ?thesis
    using C9_status_is_true [OF e] e by simp
qed

text \<open>
  C10: when the analysis configuration has no \<^verbatim>\<open>"resume"\<close> entry, the resume flag is
  false, \<^verbatim>\<open>solve\<close> makes the calls of the fresh start, and the absent entry is no
  fault: the part before the loop completes, and so does the run when its steps can.
\<close>

theorem C10_absent_resume_entry:
  assumes "json_find (analysis s) ''resume'' = None"
  shows "read_resume (analysis s) = Inr False
       \<and> setup_calls b p s =
           Some ([Initialise_materials, Initialise_mesh] @ fresh_start_events
                 @ [Initialise_loads])
       \<and> (\<exists>s'. solve_setup b p s = Inr s' \<and> step s' = step s)
       \<and> (steps_can_run b s \<longrightarrow> (\<exists>r. solve b p s = Inr (True, r)))"
  using assms
  by (simp add: read_resume_absent setup_calls_fresh setup_fresh solve_fresh)

theorem C10_absent_resume_entry_witness:
  "json_find (analysis (demo_solver\<lparr>analysis := JObject [(''type'', JString ''MPMImplicit2D'')]\<rparr>))
     ''resume'' = None
   \<and> steps_can_run demo_build
        (demo_solver\<lparr>analysis := JObject [(''type'', JString ''MPMImplicit2D'')]\<rparr>)
   \<and> setup_calls demo_build demo_perform
        (demo_solver\<lparr>analysis := JObject [(''type'', JString ''MPMImplicit2D'')]\<rparr>) =
       Some [Initialise_materials, Initialise_mesh, Initialise_particles,
             Iterate_over_particles Compute_mass, Mpi_domain_decompose True, Initialise_loads]
   \<and> (\<exists>r. solve demo_build demo_perform
             (demo_solver\<lparr>analysis := JObject [(''type'', JString ''MPMImplicit2D'')]\<rparr>) =
           Inr (True, r))"
proof -
  have a: "json_find
      (analysis (demo_solver\<lparr>analysis := JObject [(''type'', JString ''MPMImplicit2D'')]\<rparr>))
      ''resume'' = None"
    by simp
  have c: "steps_can_run demo_build
      (demo_solver\<lparr>analysis := JObject [(''type'', JString ''MPMImplicit2D'')]\<rparr>)"
    by (simp add: steps_can_run_def demo_solver_def)
  show ?thesis
    using C10_absent_resume_entry [OF a, of demo_build demo_perform] a c
    by (simp add: fresh_start_events_def)
qed

end
